theory Spec2Isabelle
  imports Main
begin

section \<open>Python values used by \<open>stock_analysis.py\<close>\<close>

text \<open>
  A Python \<open>str\<close> is a sequence of Unicode code points. The literals of the source are
  Chinese, so a string is modelled as the list of its code points; \<open>ascii\<close> embeds the
  ASCII part of a literal.
\<close>

type_synonym pystr = "nat list"

definition ascii :: "string \<Rightarrow> pystr" where
  "ascii s = map of_char s"

text \<open>\<open>str(n)\<close> for an \<open>int\<close>, as the f-strings of the source format \<open>stock_code\<close>.\<close>

fun str_nat :: "nat \<Rightarrow> pystr" where
  "str_nat n = (if n < 10 then [48 + n] else str_nat (n div 10) @ [48 + n mod 10])"

declare str_nat.simps [simp del]

definition str_int :: "int \<Rightarrow> pystr" where
  "str_int i = (if i < 0 then 45 # str_nat (nat (- i)) else str_nat (nat i))"

text \<open>
  \<open>repr\<close> of a list of strings, as \<open>f"{missing_cols}"\<close> prints it. The quoting is the
  one Python uses for a string without quotes, backslashes or control characters; the
  source only formats sublists of \<open>required_columns\<close>.
\<close>

definition repr_str :: "pystr \<Rightarrow> pystr" where
  "repr_str s = [39] @ s @ [39]"

fun join_comma :: "pystr list \<Rightarrow> pystr" where
  "join_comma [] = []"
| "join_comma [s] = s"
| "join_comma (s # t # ss) = s @ [44, 32] @ join_comma (t # ss)"

definition repr_str_list :: "pystr list \<Rightarrow> pystr" where
  "repr_str_list ss = [91] @ join_comma (map repr_str ss) @ [93]"

text \<open>
  The exceptions the program can end with. \<open>FileNotFoundError\<close> and \<open>ValueError\<close> are
  the two classes the source raises itself, each with its message. \<open>OtherError\<close> is an
  exception raised inside pandas, altair or the operating system: its class name and
  \<open>str(e)\<close>.
\<close>

datatype exn =
    FileNotFoundError pystr
  | ValueError pystr
  | OtherError pystr pystr

fun exn_str :: "exn \<Rightarrow> pystr" where
  "exn_str (FileNotFoundError m) = m"
| "exn_str (ValueError m) = m"
| "exn_str (OtherError c m) = m"

fun exn_class :: "exn \<Rightarrow> pystr" where
  "exn_class (FileNotFoundError m) = ascii ''FileNotFoundError''"
| "exn_class (ValueError m) = ascii ''ValueError''"
| "exn_class (OtherError c m) = c"

section \<open>Tables\<close>

text \<open>
  A \<open>DataFrame\<close> as \<open>pd.read_csv\<close> returns it: the column labels in file order and the
  rows in file order, a row giving the cell under each label. \<open>'v\<close> is the type of the
  parsed cells.
\<close>

record 'v dataframe =
  columns :: "pystr list"
  rows :: "(pystr \<Rightarrow> 'v) list"

text \<open>\<open>df.empty\<close>: some axis has length 0.\<close>

definition empty :: "'v dataframe \<Rightarrow> bool" where
  "empty df = (columns df = [] \<or> rows df = [])"

text \<open>\<open>df[mask]\<close> for a boolean mask computed row by row: the rows kept, in order.\<close>

definition select_rows :: "((pystr \<Rightarrow> 'v) \<Rightarrow> bool) \<Rightarrow> 'v dataframe \<Rightarrow> 'v dataframe" where
  "select_rows keep df = df\<lparr>rows := filter keep (rows df)\<rparr>"

text \<open>\<open>df[name]\<close> as the sequence of its cells.\<close>

definition column :: "'v dataframe \<Rightarrow> pystr \<Rightarrow> 'v list" where
  "column df name = map (\<lambda>r. r name) (rows df)"

text \<open>
  A row of the table \<open>load_and_prepare_data\<close> returns: the three columns
  \<open>['trade_date', 'close', 'type']\<close>. \<open>'d\<close> is the type of pandas timestamps.
\<close>

record ('v, 'd) plot_row =
  trade_date :: 'd
  close :: 'v
  type :: pystr

text \<open>
  The chart object. The encodings of the source are constants (x = \<open>trade_date\<close>,
  y = \<open>close\<close>, colour = \<open>type\<close>, three tooltips, point opacity and size), so the
  record keeps what varies: the data, the title, and the two layers made interactive.
\<close>

datatype mark = Mark_line | Mark_point

record ('v, 'd) chart =
  data :: "('v, 'd) plot_row list"
  title :: pystr
  layers :: "mark list"
  interactive :: bool

section \<open>The world outside the program\<close>

text \<open>
  pandas, altair and the file system are not code of this repository. Their operations
  are the fields of an environment:
  \<^item> \<open>path_exists\<close> is \<open>os.path.exists\<close>;
  \<^item> \<open>read_csv\<close> is \<open>pd.read_csv\<close>, which returns a table or raises;
  \<^item> \<open>series_eq v n\<close> is the entry of \<open>series == n\<close> at a cell \<open>v\<close>;
  \<^item> \<open>to_datetime\<close> is \<open>pd.to_datetime\<close> on a whole column: the timestamps, or the
    exception it raises;
  \<^item> \<open>chart_save\<close> is \<open>chart.save\<close>: \<open>None\<close> when the file was written, or the
    exception raised.
\<close>

record ('v, 'd) env =
  path_exists :: "pystr \<Rightarrow> bool"
  read_csv :: "pystr \<Rightarrow> exn + 'v dataframe"
  series_eq :: "'v \<Rightarrow> int \<Rightarrow> bool"
  to_datetime :: "'v list \<Rightarrow> exn + 'd list"
  chart_save :: "('v, 'd) chart \<Rightarrow> pystr \<Rightarrow> exn option"

text \<open>
  What a run does to the world, in order: a path tested for existence, a file read, a
  chart file written, a line printed.
\<close>

datatype ('v, 'd) event =
    Stat pystr
  | Read pystr
  | Write pystr "('v, 'd) chart"
  | Print pystr

text \<open>A computation ends with an exception or a value, and leaves a trace of events.\<close>

type_synonym ('a, 'v, 'd) io = "(exn + 'a) \<times> ('v, 'd) event list"

definition io_return :: "'a \<Rightarrow> ('a, 'v, 'd) io" where
  "io_return x = (Inr x, [])"

definition io_raise :: "exn \<Rightarrow> ('a, 'v, 'd) io" where
  "io_raise e = (Inl e, [])"

definition io_print :: "pystr \<Rightarrow> (unit, 'v, 'd) io" where
  "io_print s = (Inr (), [Print s])"

definition io_lift :: "exn + 'a \<Rightarrow> ('a, 'v, 'd) io" where
  "io_lift r = (r, [])"

definition io_bind :: "('a, 'v, 'd) io \<Rightarrow> ('a \<Rightarrow> ('b, 'v, 'd) io) \<Rightarrow> ('b, 'v, 'd) io" where
  "io_bind m f =
     (case m of
        (Inl e, tr) \<Rightarrow> (Inl e, tr)
      | (Inr x, tr) \<Rightarrow> (case f x of (r, tr') \<Rightarrow> (r, tr @ tr')))"

text \<open>\<open>try: m except Exception as e: h(e); raise\<close>.\<close>

definition io_except_reraise ::
  "('a, 'v, 'd) io \<Rightarrow> (exn \<Rightarrow> ('v, 'd) event list) \<Rightarrow> ('a, 'v, 'd) io" where
  "io_except_reraise m h =
     (case m of
        (Inl e, tr) \<Rightarrow> (Inl e, tr @ h e)
      | (Inr x, tr) \<Rightarrow> (Inr x, tr))"

definition os_path_exists :: "('v, 'd) env \<Rightarrow> pystr \<Rightarrow> (bool, 'v, 'd) io" where
  "os_path_exists env p = (Inr (path_exists env p), [Stat p])"

definition pd_read_csv :: "('v, 'd) env \<Rightarrow> pystr \<Rightarrow> ('v dataframe, 'v, 'd) io" where
  "pd_read_csv env p = (read_csv env p, [Read p])"

text \<open>
  \<open>chart.save(path)\<close>. A save that raises is modelled as leaving no file; what altair
  leaves behind on a failed write is outside the model.
\<close>

definition save :: "('v, 'd) env \<Rightarrow> ('v, 'd) chart \<Rightarrow> pystr \<Rightarrow> (unit, 'v, 'd) io" where
  "save env ch p =
     (case chart_save env ch p of
        None \<Rightarrow> (Inr (), [Write p ch])
      | Some e \<Rightarrow> (Inl e, []))"

section \<open>String literals of the source\<close>

definition weekly :: pystr where
  "weekly = [0x5468, 0x7EBF]"

definition daily :: pystr where
  "daily = [0x65E5, 0x7EBF]"

definition stock_code_col :: pystr where
  "stock_code_col = ascii ''stock_code''"

definition trade_date_col :: pystr where
  "trade_date_col = ascii ''trade_date''"

definition close_col :: pystr where
  "close_col = ascii ''close''"

definition required_columns :: "pystr list" where
  "required_columns = [stock_code_col, trade_date_col, close_col]"

definition name_processed :: pystr where
  "name_processed = [0x5904, 0x7406, 0x540E, 0x6570, 0x636E]"

definition name_unprocessed :: pystr where
  "name_unprocessed = [0x5904, 0x7406, 0x524D, 0x6570, 0x636E]"

definition type_processed :: pystr where
  "type_processed = [0x5904, 0x7406, 0x540E]"

definition type_unprocessed :: pystr where
  "type_unprocessed = [0x5904, 0x7406, 0x524D]"

definition msg_no_processed_file :: pystr where
  "msg_no_processed_file =
     [0x5904, 0x7406, 0x540E, 0x7684, 0x6570, 0x636E, 0x6587, 0x4EF6, 0x4E0D, 0x5B58,
      0x5728, 0x3A, 0x20]"

definition msg_no_unprocessed_file :: pystr where
  "msg_no_unprocessed_file =
     [0x5904, 0x7406, 0x524D, 0x7684, 0x6570, 0x636E, 0x6587, 0x4EF6, 0x4E0D, 0x5B58,
      0x5728, 0x3A, 0x20]"

definition msg_missing_cols :: pystr where
  "msg_missing_cols = [0x7F3A, 0x5C11, 0x5FC5, 0x8981, 0x7684, 0x5217, 0x3A, 0x20]"

definition msg_code_not_in_processed :: pystr where
  "msg_code_not_in_processed =
     [0x5728, 0x5904, 0x7406, 0x540E, 0x6570, 0x636E, 0x4E2D, 0x672A, 0x627E, 0x5230,
      0x80A1, 0x7968, 0x4EE3, 0x7801, 0x20]"

definition msg_code_not_in_unprocessed :: pystr where
  "msg_code_not_in_unprocessed =
     [0x5728, 0x5904, 0x7406, 0x524D, 0x6570, 0x636E, 0x4E2D, 0x672A, 0x627E, 0x5230,
      0x80A1, 0x7968, 0x4EE3, 0x7801, 0x20]"

definition msg_load_failed :: pystr where
  "msg_load_failed =
     [0x6570, 0x636E, 0x52A0, 0x8F7D, 0x548C, 0x5904, 0x7406, 0x8FC7, 0x7A0B, 0x4E2D,
      0x51FA, 0x73B0, 0x9519, 0x8BEF, 0x3A, 0x20]"

definition msg_saved :: pystr where
  "msg_saved = [0x56FE, 0x8868, 0x5DF2, 0x4FDD, 0x5B58, 0x81F3, 0x3A, 0x20]"

definition msg_bad_period :: pystr where
  "msg_bad_period =
     ascii ''period_type '' @ [0x5FC5, 0x987B, 0x662F, 0x20, 0x27] @ weekly
     @ [0x27, 0x20, 0x6216, 0x20, 0x27] @ daily @ [0x27]"

text \<open>The title \<open>f'... {stock_code}...{period_type}...'\<close> of the chart.\<close>

definition chart_title :: "int \<Rightarrow> pystr \<Rightarrow> pystr" where
  "chart_title stock_code period_type =
     [0x80A1, 0x7968, 0x20] @ str_int stock_code @ [0xFF1A] @ period_type
     @ [0x5904, 0x7406, 0x524D, 0x540E, 0x6536, 0x76D8, 0x4EF7, 0x5BF9, 0x6BD4]"

definition msg_start :: "int \<Rightarrow> pystr \<Rightarrow> pystr" where
  "msg_start stock_code period_type =
     [0x5F00, 0x59CB, 0x5904, 0x7406, 0x80A1, 0x7968, 0x20] @ str_int stock_code
     @ [0x20, 0x7684] @ period_type @ [0x6570, 0x636E, 0x5BF9, 0x6BD4, 0x2E, 0x2E, 0x2E]"

definition msg_done :: "int \<Rightarrow> pystr \<Rightarrow> pystr" where
  "msg_done stock_code period_type =
     [0x80A1, 0x7968, 0x20] @ str_int stock_code @ [0x20, 0x7684] @ period_type
     @ [0x6570, 0x636E, 0x5BF9, 0x6BD4, 0x56FE, 0x8868, 0x751F, 0x6210, 0x5B8C, 0x6210,
        0xFF01]"

text \<open>\<open>f'stock_{stock_code}_{period_type}_comparison_chart.json'\<close>.\<close>

definition auto_output_file :: "int \<Rightarrow> pystr \<Rightarrow> pystr" where
  "auto_output_file stock_code period_type =
     ascii ''stock_'' @ str_int stock_code @ ascii ''_'' @ period_type
     @ ascii ''_comparison_chart.json''"

section \<open>\<open>load_and_prepare_data\<close>\<close>

text \<open>
  The loop over \<open>[(df_processed, ...), (df_unprocessed, ...)]\<close> of lines 45 to 48: the
  first table with a missing column raises.
\<close>

definition missing_cols :: "'v dataframe \<Rightarrow> pystr list" where
  "missing_cols df = filter (\<lambda>col. col \<notin> set (columns df)) required_columns"

fun check_columns :: "('v dataframe \<times> pystr) list \<Rightarrow> exn + unit" where
  "check_columns [] = Inr ()"
| "check_columns ((df, name) # rest) =
     (if missing_cols df \<noteq> []
      then Inl (ValueError (name @ msg_missing_cols @ repr_str_list (missing_cols df)))
      else check_columns rest)"

text \<open>\<open>df[df['stock_code'] == stock_code].copy()\<close>.\<close>

definition code_rows :: "('v, 'd) env \<Rightarrow> int \<Rightarrow> 'v dataframe \<Rightarrow> 'v dataframe" where
  "code_rows env stock_code df =
     select_rows (\<lambda>r. series_eq env (r stock_code_col) stock_code) df"

text \<open>
  Lines 61 to 70 for one table: the converted dates replace the \<open>trade_date\<close> column,
  the \<open>type\<close> column is added, and the three plotted columns are kept. The dates come
  back over the index of the table, so rows and dates pair up position by position.
\<close>

definition plot_rows :: "pystr \<Rightarrow> 'v dataframe \<Rightarrow> 'd list \<Rightarrow> ('v, 'd) plot_row list" where
  "plot_rows tag df dates =
     map (\<lambda>(r, d). \<lparr>trade_date = d, close = r close_col, type = tag\<rparr>) (zip (rows df) dates)"

text \<open>The body of the \<open>try\<close> block. \<open>period_type\<close> is a parameter the body never reads.\<close>

definition load_body ::
  "('v, 'd) env \<Rightarrow> pystr \<Rightarrow> pystr \<Rightarrow> int \<Rightarrow> pystr \<Rightarrow> (('v, 'd) plot_row list, 'v, 'd) io" where
  "load_body env processed_file unprocessed_file stock_code period_type =
     io_bind (os_path_exists env processed_file) (\<lambda>exists_processed.
     if \<not> exists_processed
     then io_raise (FileNotFoundError (msg_no_processed_file @ processed_file))
     else
     io_bind (os_path_exists env unprocessed_file) (\<lambda>exists_unprocessed.
     if \<not> exists_unprocessed
     then io_raise (FileNotFoundError (msg_no_unprocessed_file @ unprocessed_file))
     else
     io_bind (pd_read_csv env processed_file) (\<lambda>df_processed.
     io_bind (pd_read_csv env unprocessed_file) (\<lambda>df_unprocessed.
     io_bind (io_lift (check_columns
        [(df_processed, name_processed), (df_unprocessed, name_unprocessed)])) (\<lambda>_.
     let df_proc_stock = code_rows env stock_code df_processed;
         df_unproc_stock = code_rows env stock_code df_unprocessed
     in
     if empty df_proc_stock
     then io_raise (ValueError (msg_code_not_in_processed @ str_int stock_code))
     else if empty df_unproc_stock
     then io_raise (ValueError (msg_code_not_in_unprocessed @ str_int stock_code))
     else
     io_bind (io_lift (to_datetime env (column df_proc_stock trade_date_col))) (\<lambda>proc_dates.
     io_bind (io_lift (to_datetime env (column df_unproc_stock trade_date_col))) (\<lambda>unproc_dates.
     let df_proc_plot = plot_rows type_processed df_proc_stock proc_dates;
         df_unproc_plot = plot_rows type_unprocessed df_unproc_stock unproc_dates
     in io_return (df_unproc_plot @ df_proc_plot))))))))"

definition load_and_prepare_data ::
  "('v, 'd) env \<Rightarrow> pystr \<Rightarrow> pystr \<Rightarrow> int \<Rightarrow> pystr \<Rightarrow> (('v, 'd) plot_row list, 'v, 'd) io" where
  "load_and_prepare_data env processed_file unprocessed_file stock_code period_type =
     io_except_reraise
       (load_body env processed_file unprocessed_file stock_code period_type)
       (\<lambda>e. [Print (msg_load_failed @ exn_str e)])"

section \<open>\<open>create_comparison_chart\<close>\<close>

text \<open>\<open>if output_file:\<close> holds for a string that is neither \<open>None\<close> nor empty.\<close>

text \<open>Lines 108 to 128: \<open>(line + points).interactive()\<close> over the table, with its title.\<close>

definition layered_chart :: "('v, 'd) plot_row list \<Rightarrow> int \<Rightarrow> pystr \<Rightarrow> ('v, 'd) chart" where
  "layered_chart df_combined stock_code period_type =
     \<lparr>data = df_combined, title = chart_title stock_code period_type,
      layers = [Mark_line, Mark_point], interactive = True\<rparr>"

definition create_comparison_chart ::
  "('v, 'd) env \<Rightarrow> ('v, 'd) plot_row list \<Rightarrow> int \<Rightarrow> pystr \<Rightarrow> pystr option
     \<Rightarrow> (('v, 'd) chart, 'v, 'd) io" where
  "create_comparison_chart env df_combined stock_code period_type output_file =
     (let ch = layered_chart df_combined stock_code period_type
      in case output_file of
           None \<Rightarrow> io_return ch
         | Some p \<Rightarrow>
             if p \<noteq> []
             then io_bind (save env ch p) (\<lambda>_.
                  io_bind (io_print (msg_saved @ p)) (\<lambda>_.
                  io_return ch))
             else io_return ch)"

section \<open>\<open>compare_stock_data\<close>\<close>

text \<open>
  The entry point, with every argument passed by the caller (the defaults of the source
  are fixed paths and the weekly label). \<open>output_file is None\<close> tests for \<open>None\<close> only.
\<close>

definition compare_stock_data ::
  "('v, 'd) env \<Rightarrow> int \<Rightarrow> pystr \<Rightarrow> pystr \<Rightarrow> pystr \<Rightarrow> pystr option
     \<Rightarrow> (('v, 'd) chart, 'v, 'd) io" where
  "compare_stock_data env stock_code processed_file unprocessed_file period_type output_file =
     (if period_type \<notin> set [weekly, daily]
      then io_raise (ValueError msg_bad_period)
      else
        let output_file' =
              (case output_file of
                 None \<Rightarrow> Some (auto_output_file stock_code period_type)
               | Some p \<Rightarrow> Some p)
        in
        io_bind (io_print (msg_start stock_code period_type)) (\<lambda>_.
        io_bind (load_and_prepare_data env processed_file unprocessed_file
                   stock_code period_type) (\<lambda>df_combined.
        io_bind (create_comparison_chart env df_combined stock_code period_type
                   output_file') (\<lambda>ch.
        io_bind (io_print (msg_done stock_code period_type)) (\<lambda>_.
        io_return ch)))))"

text \<open>The paths of the chart files a trace writes, in order.\<close>

fun written_paths :: "('v, 'd) event list \<Rightarrow> pystr list" where
  "written_paths [] = []"
| "written_paths (Write p ch # tr) = p # written_paths tr"
| "written_paths (ev # tr) = written_paths tr"

text \<open>
  \<open>pd.to_datetime\<close> returns a column over the index of its argument: one timestamp for
  each cell.
\<close>

definition same_index :: "('v, 'd) env \<Rightarrow> bool" where
  "same_index env = (\<forall>vs ds. to_datetime env vs = Inr ds \<longrightarrow> length ds = length vs)"

text \<open>The rows of a table that compare equal to the code, and the dates of rows.\<close>

abbreviation matching_rows :: "('v, 'd) env \<Rightarrow> int \<Rightarrow> 'v dataframe \<Rightarrow> (pystr \<Rightarrow> 'v) list" where
  "matching_rows env stock_code df \<equiv>
     filter (\<lambda>r. series_eq env (r stock_code_col) stock_code) (rows df)"

abbreviation dates_of :: "(pystr \<Rightarrow> 'v) list \<Rightarrow> 'v list" where
  "dates_of rs \<equiv> map (\<lambda>r. r trade_date_col) rs"

abbreviation closes_of :: "(pystr \<Rightarrow> 'v) list \<Rightarrow> 'v list" where
  "closes_of rs \<equiv> map (\<lambda>r. r close_col) rs"

section \<open>An example world\<close>

text \<open>
  A world on which the functions can be run. Its cells are the values \<open>pd.read_csv\<close>
  makes of the fields of the example files:
  \<^item> \<open>IntCell n\<close>, a field of an integer column (int64);
  \<^item> \<open>FloatCell m e\<close>, a field of a decimal column (float64): the double \<open>m * 2^e\<close>;
  \<^item> \<open>DayCell d\<close>, a text field holding the ISO form of the day \<open>d\<close>;
  \<^item> \<open>NaCell\<close>, a missing value: an empty field, or one that reads \<open>n/a\<close>.
  The days are those that occur in the files.
\<close>

datatype day = Jan_01_2024 | Jan_03_2024 | Jan_08_2024

datatype cell = IntCell int | FloatCell int int | DayCell day | NaCell

text \<open>
  What \<open>pd.to_datetime\<close> makes of a cell: the day of an ISO text, \<open>NaT\<close> of a missing
  value, and of a number the instant that many nanoseconds after the start of 1970 (the
  numbers of the example files lie far inside the range of such instants). It raises on
  none of these cells.
\<close>

datatype timestamp = On day | NaT | Unix_ns cell

fun to_timestamp :: "cell \<Rightarrow> timestamp" where
  "to_timestamp (DayCell d) = On d"
| "to_timestamp NaCell = NaT"
| "to_timestamp v = Unix_ns v"

text \<open>
  \<open>column == n\<close> for a Python \<open>int\<close>. An int64 cell is compared exactly. For a float64
  cell numpy first converts \<open>n\<close> to the nearest double, ties to even (\<open>float64_of_int\<close>, for
  \<open>n\<close> in the range of the doubles), and compares the two doubles. A text and a missing
  value equal no number.
\<close>

fun bit_length :: "nat \<Rightarrow> nat" where
  "bit_length n = (if n = 0 then 0 else Suc (bit_length (n div 2)))"

declare bit_length.simps [simp del]

definition float64_of_int :: "int \<Rightarrow> int" where
  "float64_of_int n =
     (let a = nat \<bar>n\<bar>; k = bit_length a
      in if k \<le> 53 then n
         else let e = k - 53; q = a div 2 ^ e; r = a mod 2 ^ e; h = 2 ^ (e - 1);
                  q' = (if h < r \<or> (r = h \<and> odd q) then q + 1 else q)
              in sgn n * int (q' * 2 ^ e))"

fun cell_eq :: "cell \<Rightarrow> int \<Rightarrow> bool" where
  "cell_eq (IntCell i) n = (i = n)"
| "cell_eq (FloatCell m e) n =
     (if 0 \<le> e then m * 2 ^ nat e = float64_of_int n
      else m = float64_of_int n * 2 ^ nat (- e))"
| "cell_eq (DayCell d) n = False"
| "cell_eq NaCell n = False"


definition example_row :: "cell \<Rightarrow> cell \<Rightarrow> cell \<Rightarrow> pystr \<Rightarrow> cell" where
  "example_row code date price =
     (\<lambda>name. if name = stock_code_col then code
              else if name = trade_date_col then date
              else price)"

text \<open>
  The unprocessed file: two weeks of 920225 (closing at 10.5 and 11.0) around a row of
  600000 whose date field reads \<open>n/a\<close>.
\<close>

definition raw_table :: "cell dataframe" where
  "raw_table =
     \<lparr>columns = [stock_code_col, trade_date_col, close_col],
      rows = [example_row (IntCell 920225) (DayCell Jan_01_2024) (FloatCell 21 (- 1)),
              example_row (IntCell 600000) NaCell (FloatCell 3 0),
              example_row (IntCell 920225) (DayCell Jan_08_2024) (FloatCell 11 0)]\<rparr>"

text \<open>The processed file: the same two weeks of 920225, closing at 10.25 and 10.75.\<close>

definition processed_table :: "cell dataframe" where
  "processed_table =
     \<lparr>columns = [stock_code_col, trade_date_col, close_col],
      rows = [example_row (IntCell 920225) (DayCell Jan_01_2024) (FloatCell 41 (- 2)),
              example_row (IntCell 920225) (DayCell Jan_08_2024) (FloatCell 43 (- 2))]\<rparr>"

text \<open>A file without the \<open>close\<close> column.\<close>

definition short_table :: "cell dataframe" where
  "short_table =
     \<lparr>columns = [stock_code_col, trade_date_col],
      rows = [example_row (IntCell 920225) (DayCell Jan_01_2024) NaCell]\<rparr>"

text \<open>
  A file whose second row has no stock code. With a missing value in it the column is
  read as float64, and the code 9007199254740992 of the first row as the double \<open>2^53\<close>.
\<close>

definition gap_table :: "cell dataframe" where
  "gap_table =
     \<lparr>columns = [stock_code_col, trade_date_col, close_col],
      rows = [example_row (FloatCell 1 53) (DayCell Jan_01_2024) (FloatCell 21 (- 1)),
              example_row NaCell (DayCell Jan_08_2024) (FloatCell 11 0)]\<rparr>"

definition raw_csv :: pystr where
  "raw_csv = ascii ''raw.csv''"

definition processed_csv :: pystr where
  "processed_csv = ascii ''processed.csv''"

definition short_csv :: pystr where
  "short_csv = ascii ''short.csv''"

definition gap_csv :: pystr where
  "gap_csv = ascii ''gap.csv''"

definition absent_csv :: pystr where
  "absent_csv = ascii ''absent.csv''"

definition example_env :: "(cell, timestamp) env" where
  "example_env =
     \<lparr>path_exists = (\<lambda>p. p = raw_csv \<or> p = processed_csv \<or> p = short_csv \<or> p = gap_csv),
      read_csv = (\<lambda>p. if p = raw_csv then Inr raw_table
                       else if p = processed_csv then Inr processed_table
                       else if p = short_csv then Inr short_table
                       else if p = gap_csv then Inr gap_table
                       else Inl (FileNotFoundError p)),
      series_eq = cell_eq,
      to_datetime = (\<lambda>vs. Inr (map to_timestamp vs)),
      chart_save = (\<lambda>ch p. None)\<rparr>"

text \<open>
  A second world: the unprocessed file with a day in the date field of the row of
  600000, everything else as before.
\<close>

definition redated_table :: "cell dataframe" where
  "redated_table =
     \<lparr>columns = [stock_code_col, trade_date_col, close_col],
      rows = [example_row (IntCell 920225) (DayCell Jan_01_2024) (FloatCell 21 (- 1)),
              example_row (IntCell 600000) (DayCell Jan_03_2024) (FloatCell 3 0),
              example_row (IntCell 920225) (DayCell Jan_08_2024) (FloatCell 11 0)]\<rparr>"

definition redated_env :: "(cell, timestamp) env" where
  "redated_env =
     example_env\<lparr>read_csv := (\<lambda>p. if p = raw_csv then Inr redated_table
                                    else read_csv example_env p)\<rparr>"

section \<open>Properties\<close>

subsection \<open>The trace monad\<close>

lemma io_bind_Inl [simp]: "io_bind (Inl e, tr) f = (Inl e, tr)"
  by (simp add: io_bind_def)

lemma io_bind_Inr [simp]: "io_bind (Inr x, tr) f = (fst (f x), tr @ snd (f x))"
  by (simp add: io_bind_def split: prod.splits)

lemma fst_io_bind:
  "fst (io_bind m f) = (case fst m of Inl e \<Rightarrow> Inl e | Inr x \<Rightarrow> fst (f x))"
  by (cases m) (auto simp: io_bind_def split: sum.splits prod.splits)

lemma fst_io_simps [simp]:
  "fst (io_return x) = Inr x"
  "fst (io_raise e) = Inl e"
  "fst (io_lift r) = r"
  "fst (os_path_exists env p) = Inr (path_exists env p)"
  "fst (pd_read_csv env p) = read_csv env p"
  by (simp_all add: io_return_def io_raise_def io_lift_def os_path_exists_def pd_read_csv_def)

subsection \<open>The result of the loader\<close>

lemma fst_load_and_prepare_data:
  "fst (load_and_prepare_data env pf uf code period) = fst (load_body env pf uf code period)"
  by (cases "load_body env pf uf code period")
     (auto simp: load_and_prepare_data_def io_except_reraise_def split: sum.splits)

lemma missing_cols_Nil_iff:
  "missing_cols df = [] \<longleftrightarrow> set required_columns \<subseteq> set (columns df)"
  by (auto simp: missing_cols_def filter_empty_conv)

lemma rows_code_rows [simp]:
  "rows (code_rows env code df) = matching_rows env code df"
  by (simp add: code_rows_def select_rows_def)

lemma column_code_rows [simp]:
  "column (code_rows env code df) name = map (\<lambda>r. r name) (matching_rows env code df)"
  by (simp add: column_def)

lemma empty_code_rows:
  "missing_cols df = [] \<Longrightarrow>
   empty (code_rows env code df) \<longleftrightarrow> matching_rows env code df = []"
  by (auto simp: empty_def code_rows_def select_rows_def missing_cols_Nil_iff
        required_columns_def)

text \<open>Once both files exist and parse, the outcome is a chain of four checks.\<close>

lemma load_result:
  assumes "path_exists env pf" "path_exists env uf"
    and "read_csv env pf = Inr dfp" "read_csv env uf = Inr dfu"
  shows "fst (load_and_prepare_data env pf uf code period) =
     (if missing_cols dfp \<noteq> []
      then Inl (ValueError (name_processed @ msg_missing_cols @ repr_str_list (missing_cols dfp)))
      else if missing_cols dfu \<noteq> []
      then Inl (ValueError (name_unprocessed @ msg_missing_cols @ repr_str_list (missing_cols dfu)))
      else if empty (code_rows env code dfp)
      then Inl (ValueError (msg_code_not_in_processed @ str_int code))
      else if empty (code_rows env code dfu)
      then Inl (ValueError (msg_code_not_in_unprocessed @ str_int code))
      else case to_datetime env (dates_of (matching_rows env code dfp)) of
             Inl e \<Rightarrow> Inl e
           | Inr pd \<Rightarrow>
              (case to_datetime env (dates_of (matching_rows env code dfu)) of
                 Inl e \<Rightarrow> Inl e
               | Inr ud \<Rightarrow> Inr (plot_rows type_unprocessed (code_rows env code dfu) ud
                               @ plot_rows type_processed (code_rows env code dfp) pd)))"
  using assms
  by (simp add: fst_load_and_prepare_data load_body_def fst_io_bind Let_def split: sum.splits)

text \<open>A table is returned only when every check has passed.\<close>

lemma load_success:
  assumes "fst (load_and_prepare_data env pf uf code period) = Inr t"
  shows "\<exists>dfp dfu pd ud.
           path_exists env pf \<and> path_exists env uf
         \<and> read_csv env pf = Inr dfp \<and> read_csv env uf = Inr dfu
         \<and> missing_cols dfp = [] \<and> missing_cols dfu = []
         \<and> matching_rows env code dfp \<noteq> [] \<and> matching_rows env code dfu \<noteq> []
         \<and> to_datetime env (dates_of (matching_rows env code dfp)) = Inr pd
         \<and> to_datetime env (dates_of (matching_rows env code dfu)) = Inr ud
         \<and> t = plot_rows type_unprocessed (code_rows env code dfu) ud
               @ plot_rows type_processed (code_rows env code dfp) pd"
  using assms
  by (auto simp: fst_load_and_prepare_data load_body_def fst_io_bind Let_def empty_def
           split: sum.splits if_splits)

lemma zip_rows_maps:
  "length xs = length ds \<Longrightarrow>
     map (\<lambda>(r, d). tag) (zip xs ds) = replicate (length xs) tag
   \<and> map (\<lambda>(r, d). f r) (zip xs ds) = map f xs
   \<and> map (\<lambda>(r, d). d) (zip xs ds) = ds"
  by (induction xs ds rule: list_induct2) simp_all

lemma plot_rows_maps:
  assumes "length ds = length (rows df)"
  shows "map type (plot_rows tag df ds) = replicate (length (rows df)) tag"
    and "map close (plot_rows tag df ds) = closes_of (rows df)"
    and "map trade_date (plot_rows tag df ds) = ds"
    and "length (plot_rows tag df ds) = length (rows df)"
  using zip_rows_maps [of "rows df" ds tag "\<lambda>r. r close_col"] assms
  by (simp_all add: plot_rows_def comp_def case_prod_unfold)


subsection \<open>The example world\<close>

lemma col_distinct [simp]:
  "stock_code_col \<noteq> trade_date_col" "trade_date_col \<noteq> stock_code_col"
  "stock_code_col \<noteq> close_col" "close_col \<noteq> stock_code_col"
  "trade_date_col \<noteq> close_col" "close_col \<noteq> trade_date_col"
  by (simp_all add: stock_code_col_def trade_date_col_def close_col_def ascii_def)

lemma paths_distinct [simp]:
  "raw_csv \<noteq> processed_csv" "processed_csv \<noteq> raw_csv"
  "short_csv \<noteq> raw_csv" "short_csv \<noteq> processed_csv"
  "gap_csv \<noteq> raw_csv" "gap_csv \<noteq> processed_csv" "gap_csv \<noteq> short_csv"
  "absent_csv \<noteq> raw_csv" "absent_csv \<noteq> processed_csv" "absent_csv \<noteq> short_csv"
  "absent_csv \<noteq> gap_csv"
  by (simp_all add: raw_csv_def processed_csv_def short_csv_def gap_csv_def absent_csv_def
        ascii_def)

lemma example_env_simps [simp]:
  "path_exists example_env p
     = (p = raw_csv \<or> p = processed_csv \<or> p = short_csv \<or> p = gap_csv)"
  "read_csv example_env raw_csv = Inr raw_table"
  "read_csv example_env processed_csv = Inr processed_table"
  "read_csv example_env short_csv = Inr short_table"
  "read_csv example_env gap_csv = Inr gap_table"
  "chart_save example_env ch p = None"
  by (simp_all add: example_env_def)

lemma example_series_eq: "series_eq example_env v n = cell_eq v n"
  by (simp add: example_env_def)

lemma example_to_datetime: "to_datetime example_env vs = Inr (map to_timestamp vs)"
  by (simp add: example_env_def)

lemma example_same_index: "same_index example_env"
  by (auto simp: same_index_def example_to_datetime)

lemma example_missing [simp]:
  "missing_cols raw_table = []" "missing_cols processed_table = []"
  "missing_cols short_table = [close_col]" "missing_cols gap_table = []"
  by (simp_all add: missing_cols_def raw_table_def processed_table_def short_table_def
        gap_table_def required_columns_def)

lemma example_matching_920225:
  "matching_rows example_env 920225 raw_table =
     [example_row (IntCell 920225) (DayCell Jan_01_2024) (FloatCell 21 (- 1)),
      example_row (IntCell 920225) (DayCell Jan_08_2024) (FloatCell 11 0)]"
  "matching_rows example_env 920225 processed_table =
     [example_row (IntCell 920225) (DayCell Jan_01_2024) (FloatCell 41 (- 2)),
      example_row (IntCell 920225) (DayCell Jan_08_2024) (FloatCell 43 (- 2))]"
  by (simp_all add: example_series_eq raw_table_def processed_table_def example_row_def)

lemma example_matching_600000:
  "matching_rows example_env 600000 raw_table =
     [example_row (IntCell 600000) NaCell (FloatCell 3 0)]"
  "matching_rows example_env 600000 processed_table = []"
  by (simp_all add: example_series_eq raw_table_def processed_table_def example_row_def)

lemma example_dates_920225:
  "to_datetime example_env (dates_of (matching_rows example_env 920225 raw_table))
     = Inr [On Jan_01_2024, On Jan_08_2024]"
  "to_datetime example_env (dates_of (matching_rows example_env 920225 processed_table))
     = Inr [On Jan_01_2024, On Jan_08_2024]"
  by (simp_all add: example_matching_920225 example_to_datetime example_row_def)

lemma example_dates_600000:
  "to_datetime example_env (dates_of (matching_rows example_env 600000 raw_table)) = Inr [NaT]"
  by (simp add: example_matching_600000 example_to_datetime example_row_def)

lemma example_nonempty_920225:
  "matching_rows example_env 920225 raw_table \<noteq> []"
  "matching_rows example_env 920225 processed_table \<noteq> []"
  by (simp_all add: example_matching_920225)

text \<open>The run of the example: two unprocessed records, then two processed.\<close>

lemma example_load_920225:
  "fst (load_and_prepare_data example_env processed_csv raw_csv 920225 weekly) =
     Inr [\<lparr>trade_date = On Jan_01_2024, close = FloatCell 21 (- 1), type = type_unprocessed\<rparr>,
          \<lparr>trade_date = On Jan_08_2024, close = FloatCell 11 0, type = type_unprocessed\<rparr>,
          \<lparr>trade_date = On Jan_01_2024, close = FloatCell 41 (- 2), type = type_processed\<rparr>,
          \<lparr>trade_date = On Jan_08_2024, close = FloatCell 43 (- 2), type = type_processed\<rparr>]"
  apply (simp add: load_result [of _ _ _ processed_table raw_table] empty_code_rows
          example_nonempty_920225 example_dates_920225)
  apply (simp add: plot_rows_def example_matching_920225 example_row_def)
  done


subsection \<open>Claims about the loader\<close>

text \<open>
  C1: when both files exist and parse, both tables have the required columns, both hold
  rows of the requested code and both date columns convert, \<open>load_and_prepare_data\<close>
  returns a table, and its length is the number of rows of the code in the unprocessed
  table plus the number of rows of the code in the processed table.
\<close>

theorem load_length:
  assumes "path_exists env processed_file" and "path_exists env unprocessed_file"
    and "read_csv env processed_file = Inr df_processed"
    and "read_csv env unprocessed_file = Inr df_unprocessed"
    and "missing_cols df_processed = []" and "missing_cols df_unprocessed = []"
    and "matching_rows env stock_code df_processed \<noteq> []"
    and "matching_rows env stock_code df_unprocessed \<noteq> []"
    and "to_datetime env (dates_of (matching_rows env stock_code df_processed)) = Inr proc_dates"
    and "to_datetime env (dates_of (matching_rows env stock_code df_unprocessed)) = Inr unproc_dates"
    and "same_index env"
  shows "\<exists>t. fst (load_and_prepare_data env processed_file unprocessed_file stock_code period_type)
               = Inr t
           \<and> length t = length (matching_rows env stock_code df_unprocessed)
                        + length (matching_rows env stock_code df_processed)"
proof -
  have lp: "length proc_dates = length (rows (code_rows env stock_code df_processed))"
    and lu: "length unproc_dates = length (rows (code_rows env stock_code df_unprocessed))"
    using assms(9,10,11) by (auto simp: same_index_def)
  show ?thesis
    using assms(1-10) plot_rows_maps(4) [OF lp] plot_rows_maps(4) [OF lu]
    by (simp add: load_result [of env processed_file unprocessed_file df_processed df_unprocessed]
          empty_code_rows)
qed

theorem load_length_witness:
  "same_index example_env
   \<and> (\<exists>t. fst (load_and_prepare_data example_env processed_csv raw_csv 920225 weekly) = Inr t
          \<and> length t = 2 + 2)"
proof -
  have mp: "matching_rows example_env 920225 processed_table \<noteq> []"
    and mu: "matching_rows example_env 920225 raw_table \<noteq> []"
    by (simp_all add: example_matching_920225)
  have "length (matching_rows example_env 920225 raw_table) = 2"
    and "length (matching_rows example_env 920225 processed_table) = 2"
    by (simp_all add: example_matching_920225)
  with load_length [of example_env processed_csv raw_csv processed_table raw_table 920225,
        OF _ _ _ _ _ _ mp mu example_dates_920225(2) example_dates_920225(1)
           example_same_index, of weekly]
  show ?thesis by (simp add: example_same_index)
qed

text \<open>
  C2: in every table \<open>load_and_prepare_data\<close> returns, the records of the unprocessed
  file come first, all tagged with the label of the unprocessed file, followed by the
  records of the processed file, all tagged with the label of the processed file (the two
  labels differ); inside each group the closing prices and the converted dates stand in
  the order the rows of the code have in the file, so nothing is sorted by date.
\<close>

theorem load_order:
  assumes "same_index env"
    and "fst (load_and_prepare_data env processed_file unprocessed_file stock_code period_type)
           = Inr t"
  shows "\<exists>df_processed df_unprocessed proc_dates unproc_dates.
           read_csv env processed_file = Inr df_processed
         \<and> read_csv env unprocessed_file = Inr df_unprocessed
         \<and> to_datetime env (dates_of (matching_rows env stock_code df_processed))
             = Inr proc_dates
         \<and> to_datetime env (dates_of (matching_rows env stock_code df_unprocessed))
             = Inr unproc_dates
         \<and> map type t =
             replicate (length (matching_rows env stock_code df_unprocessed)) type_unprocessed
             @ replicate (length (matching_rows env stock_code df_processed)) type_processed
         \<and> map close t =
             closes_of (matching_rows env stock_code df_unprocessed)
             @ closes_of (matching_rows env stock_code df_processed)
         \<and> map trade_date t = unproc_dates @ proc_dates
         \<and> type_unprocessed \<noteq> type_processed"
proof -
  from load_success [OF assms(2)] obtain dfp dfu pd ud where
    rp: "read_csv env processed_file = Inr dfp" and ru: "read_csv env unprocessed_file = Inr dfu"
    and dp: "to_datetime env (dates_of (matching_rows env stock_code dfp)) = Inr pd"
    and du: "to_datetime env (dates_of (matching_rows env stock_code dfu)) = Inr ud"
    and t: "t = plot_rows type_unprocessed (code_rows env stock_code dfu) ud
              @ plot_rows type_processed (code_rows env stock_code dfp) pd"
    by blast
  have lp: "length pd = length (rows (code_rows env stock_code dfp))"
    and lu: "length ud = length (rows (code_rows env stock_code dfu))"
    using assms(1) dp du by (auto simp: same_index_def)
  have "map type t =
          replicate (length (matching_rows env stock_code dfu)) type_unprocessed
          @ replicate (length (matching_rows env stock_code dfp)) type_processed"
    using plot_rows_maps(1) [OF lp] plot_rows_maps(1) [OF lu] by (simp add: t)
  moreover have "map close t =
          closes_of (matching_rows env stock_code dfu) @ closes_of (matching_rows env stock_code dfp)"
    using plot_rows_maps(2) [OF lp] plot_rows_maps(2) [OF lu] by (simp add: t)
  moreover have "map trade_date t = ud @ pd"
    using plot_rows_maps(3) [OF lp] plot_rows_maps(3) [OF lu] by (simp add: t)
  moreover have "type_unprocessed \<noteq> type_processed"
    by (simp add: type_unprocessed_def type_processed_def)
  ultimately show ?thesis using rp ru dp du by blast
qed

theorem load_order_witness:
  "fst (load_and_prepare_data example_env processed_csv raw_csv 920225 weekly) =
     Inr [\<lparr>trade_date = On Jan_01_2024, close = FloatCell 21 (- 1), type = type_unprocessed\<rparr>,
          \<lparr>trade_date = On Jan_08_2024, close = FloatCell 11 0, type = type_unprocessed\<rparr>,
          \<lparr>trade_date = On Jan_01_2024, close = FloatCell 41 (- 2), type = type_processed\<rparr>,
          \<lparr>trade_date = On Jan_08_2024, close = FloatCell 43 (- 2), type = type_processed\<rparr>]
   \<and> (\<exists>df_processed df_unprocessed.
          read_csv example_env processed_csv = Inr df_processed
        \<and> read_csv example_env raw_csv = Inr df_unprocessed
        \<and> map type [\<lparr>trade_date = On Jan_01_2024, close = FloatCell 21 (- 1),
                       type = type_unprocessed\<rparr>,
                     \<lparr>trade_date = On Jan_08_2024, close = FloatCell 11 0,
                       type = type_unprocessed\<rparr>,
                     \<lparr>trade_date = On Jan_01_2024, close = FloatCell 41 (- 2),
                       type = type_processed\<rparr>,
                     \<lparr>trade_date = On Jan_08_2024, close = FloatCell 43 (- 2),
                       type = type_processed\<rparr>] =
            replicate (length (matching_rows example_env 920225 df_unprocessed)) type_unprocessed
            @ replicate (length (matching_rows example_env 920225 df_processed)) type_processed)"
proof -
  have run: "fst (load_and_prepare_data example_env processed_csv raw_csv 920225 weekly) =
     Inr [\<lparr>trade_date = On Jan_01_2024, close = FloatCell 21 (- 1), type = type_unprocessed\<rparr>,
          \<lparr>trade_date = On Jan_08_2024, close = FloatCell 11 0, type = type_unprocessed\<rparr>,
          \<lparr>trade_date = On Jan_01_2024, close = FloatCell 41 (- 2), type = type_processed\<rparr>,
          \<lparr>trade_date = On Jan_08_2024, close = FloatCell 43 (- 2), type = type_processed\<rparr>]"
    by (rule example_load_920225)
  from load_order [OF example_same_index run] run show ?thesis by blast
qed





text \<open>
  C4: when both files exist and parse and one of the two tables lacks a required
  column, \<open>load_and_prepare_data\<close> returns no table: it raises a \<open>ValueError\<close> whose
  message is the label of the first table at fault (the processed one is tested first),
  the fixed text, and the list of the required columns that table lacks.
\<close>

theorem load_missing_column:
  assumes "path_exists env processed_file" and "path_exists env unprocessed_file"
    and "read_csv env processed_file = Inr df_processed"
    and "read_csv env unprocessed_file = Inr df_unprocessed"
    and "\<not> set required_columns \<subseteq> set (columns df_processed)
         \<or> \<not> set required_columns \<subseteq> set (columns df_unprocessed)"
  shows "fst (load_and_prepare_data env processed_file unprocessed_file stock_code period_type) =
           Inl (ValueError
             (if \<not> set required_columns \<subseteq> set (columns df_processed)
              then name_processed @ msg_missing_cols
                   @ repr_str_list
                       (filter (\<lambda>col. col \<notin> set (columns df_processed)) required_columns)
              else name_unprocessed @ msg_missing_cols
                   @ repr_str_list
                       (filter (\<lambda>col. col \<notin> set (columns df_unprocessed)) required_columns)))"
  using assms(5)
  by (auto simp: load_result [OF assms(1-4)] missing_cols_Nil_iff)
     (simp_all add: missing_cols_def)

theorem load_missing_column_witness:
  "\<not> set required_columns \<subseteq> set (columns short_table)
   \<and> fst (load_and_prepare_data example_env short_csv raw_csv 920225 weekly) =
       Inl (ValueError (name_processed @ msg_missing_cols @ ascii ''['' @ [39] @ ascii ''close''
                        @ [39] @ ascii '']''))"
proof -
  have h: "\<not> set required_columns \<subseteq> set (columns short_table)"
    by (simp add: required_columns_def short_table_def)
  have "filter (\<lambda>col. col \<notin> set (columns short_table)) required_columns = [close_col]"
    by (simp add: required_columns_def short_table_def)
  with load_missing_column [of example_env short_csv raw_csv short_table raw_table,
        OF _ _ _ _ disjI1 [OF h], of 920225 weekly] h
  show ?thesis
    by (simp add: repr_str_list_def repr_str_def close_col_def ascii_def)
qed

text \<open>
  C5: when both files exist and parse and both tables have the required columns, a
  table without rows of the requested code makes \<open>load_and_prepare_data\<close> return no
  table: it raises a \<open>ValueError\<close> whose message names the source (the processed one is
  tested first) and the code. The class is \<open>ValueError\<close>, the class of the missing
  column error, and not the \<open>FileNotFoundError\<close> raised for a missing file.
\<close>

theorem load_code_not_found:
  assumes "path_exists env processed_file" and "path_exists env unprocessed_file"
    and "read_csv env processed_file = Inr df_processed"
    and "read_csv env unprocessed_file = Inr df_unprocessed"
    and "missing_cols df_processed = []" and "missing_cols df_unprocessed = []"
    and "matching_rows env stock_code df_processed = []
         \<or> matching_rows env stock_code df_unprocessed = []"
  shows "fst (load_and_prepare_data env processed_file unprocessed_file stock_code period_type) =
           Inl (ValueError
             (if matching_rows env stock_code df_processed = []
              then msg_code_not_in_processed @ str_int stock_code
              else msg_code_not_in_unprocessed @ str_int stock_code))
       \<and> exn_class (ValueError m) \<noteq> exn_class (FileNotFoundError m')"
  using assms(5-7)
  by (auto simp: load_result [OF assms(1-4)] empty_code_rows ascii_def)

theorem load_code_not_found_witness:
  "matching_rows example_env 600000 processed_table = []
   \<and> fst (load_and_prepare_data example_env processed_csv raw_csv 600000 weekly) =
       Inl (ValueError (msg_code_not_in_processed @ ascii ''600000''))"
proof -
  have s: "str_int 600000 = ascii ''600000''"
    by (simp add: str_int_def str_nat.simps ascii_def)
  from load_code_not_found [of example_env processed_csv raw_csv processed_table raw_table
        600000, OF _ _ _ _ _ _ disjI1 [OF example_matching_600000(2)], of weekly]
  show ?thesis
    by (simp add: example_matching_600000(2) s)
qed

text \<open>
  The claim as the specification states it fails: 600000 has no row in the processed
  file and the loader raises \<open>ValueError\<close>, while for a missing file it raises
  \<open>FileNotFoundError\<close>; the two classes differ.
\<close>

theorem load_code_not_found_counterexample:
  "matching_rows example_env 600000 processed_table = []
   \<and> fst (load_and_prepare_data example_env processed_csv raw_csv 600000 weekly) =
       Inl (ValueError (msg_code_not_in_processed @ str_int 600000))
   \<and> fst (load_and_prepare_data example_env absent_csv raw_csv 600000 weekly) =
       Inl (FileNotFoundError (msg_no_processed_file @ absent_csv))
   \<and> exn_class (ValueError (msg_code_not_in_processed @ str_int 600000))
       \<noteq> exn_class (FileNotFoundError (msg_no_processed_file @ absent_csv))"
proof -
  have "fst (load_and_prepare_data example_env processed_csv raw_csv 600000 weekly) =
          Inl (ValueError (msg_code_not_in_processed @ str_int 600000))"
    by (simp add: load_result [of _ _ _ processed_table raw_table] empty_code_rows
          example_matching_600000(2))
  moreover have "fst (load_and_prepare_data example_env absent_csv raw_csv 600000 weekly) =
          Inl (FileNotFoundError (msg_no_processed_file @ absent_csv))"
    by (simp add: fst_load_and_prepare_data load_body_def fst_io_bind)
  ultimately show ?thesis
    by (simp add: example_matching_600000(2) ascii_def)
qed

text \<open>
  Rows that differ only in the date of rows of other codes are the same rows for the
  filter.
\<close>

lemma matching_rows_other_dates:
  assumes "list_all2 (\<lambda>r r'. (\<forall>name. name \<noteq> trade_date_col \<longrightarrow> r' name = r name)
                             \<and> (P (r stock_code_col) \<longrightarrow> r' = r)) xs ys"
  shows "filter (\<lambda>r. P (r stock_code_col)) ys = filter (\<lambda>r. P (r stock_code_col)) xs"
  using assms
proof (induction xs ys rule: list_all2_induct)
  case Nil
  then show ?case by simp
next
  case (Cons x xs y ys)
  from Cons.hyps(1) have "y stock_code_col = x stock_code_col" by simp
  with Cons show ?case by auto
qed

text \<open>
  C6: \<open>pd.to_datetime\<close> is given the \<open>trade_date\<close> cells of the rows kept by the filter
  and no others. So two worlds that read tables with the same columns and the same kept
  rows, and that differ only in \<open>trade_date\<close> cells of rows of other codes, end alike;
  and once both tables have the required columns and have each kept a row, the loader
  ends as \<open>pd.to_datetime\<close> ends on the kept dates: with the exception raised on those of
  the processed table, else with the one raised on those of the unprocessed table, and
  with the table when both convert.
\<close>

theorem load_parses_kept_dates:
  assumes "path_exists env processed_file" and "path_exists env unprocessed_file"
    and "read_csv env processed_file = Inr df_processed"
    and "read_csv env unprocessed_file = Inr df_unprocessed"
    and "path_exists env' = path_exists env" and "series_eq env' = series_eq env"
    and "to_datetime env' = to_datetime env"
    and "read_csv env' processed_file = Inr df_processed'"
    and "read_csv env' unprocessed_file = Inr df_unprocessed'"
    and "columns df_processed' = columns df_processed"
    and "columns df_unprocessed' = columns df_unprocessed"
    and "list_all2 (\<lambda>r r'. (\<forall>name. name \<noteq> trade_date_col \<longrightarrow> r' name = r name)
                  \<and> (series_eq env (r stock_code_col) stock_code \<longrightarrow> r' = r))
           (rows df_processed) (rows df_processed')"
    and "list_all2 (\<lambda>r r'. (\<forall>name. name \<noteq> trade_date_col \<longrightarrow> r' name = r name)
                  \<and> (series_eq env (r stock_code_col) stock_code \<longrightarrow> r' = r))
           (rows df_unprocessed) (rows df_unprocessed')"
  shows "fst (load_and_prepare_data env' processed_file unprocessed_file stock_code period_type)
         = fst (load_and_prepare_data env processed_file unprocessed_file stock_code period_type)
       \<and> (missing_cols df_processed = [] \<and> missing_cols df_unprocessed = []
          \<and> matching_rows env stock_code df_processed \<noteq> []
          \<and> matching_rows env stock_code df_unprocessed \<noteq> []
          \<longrightarrow> fst (load_and_prepare_data env processed_file unprocessed_file stock_code
                      period_type) =
               (case to_datetime env (dates_of (matching_rows env stock_code df_processed)) of
                  Inl e \<Rightarrow> Inl e
                | Inr proc_dates \<Rightarrow>
                   (case to_datetime env
                           (dates_of (matching_rows env stock_code df_unprocessed)) of
                      Inl e \<Rightarrow> Inl e
                    | Inr unproc_dates \<Rightarrow>
                        Inr (plot_rows type_unprocessed
                               (code_rows env stock_code df_unprocessed) unproc_dates
                             @ plot_rows type_processed
                               (code_rows env stock_code df_processed) proc_dates))))"
proof -
  have mp: "matching_rows env' stock_code df_processed'
              = matching_rows env stock_code df_processed"
    using matching_rows_other_dates [OF assms(12)] by (simp add: assms(6))
  have mu: "matching_rows env' stock_code df_unprocessed'
              = matching_rows env stock_code df_unprocessed"
    using matching_rows_other_dates [OF assms(13)] by (simp add: assms(6))
  have cp: "missing_cols df_processed' = missing_cols df_processed"
    and cu: "missing_cols df_unprocessed' = missing_cols df_unprocessed"
    by (simp_all add: missing_cols_def assms(10,11))
  have ep: "empty (code_rows env' stock_code df_processed')
              = empty (code_rows env stock_code df_processed)"
    and eu: "empty (code_rows env' stock_code df_unprocessed')
              = empty (code_rows env stock_code df_unprocessed)"
    using mp mu by (simp_all add: empty_def code_rows_def select_rows_def assms(6,10,11))
  have pp: "plot_rows tag (code_rows env' stock_code df_processed') ds
              = plot_rows tag (code_rows env stock_code df_processed) ds"
    and pu: "plot_rows tag (code_rows env' stock_code df_unprocessed') ds
              = plot_rows tag (code_rows env stock_code df_unprocessed) ds" for tag ds
    using mp mu by (simp_all add: plot_rows_def)
  have ex: "path_exists env' processed_file" "path_exists env' unprocessed_file"
    using assms(1,2,5) by simp_all
  have "fst (load_and_prepare_data env' processed_file unprocessed_file stock_code period_type)
        = fst (load_and_prepare_data env processed_file unprocessed_file stock_code period_type)"
    by (simp add: load_result [OF ex assms(8,9)] load_result [OF assms(1-4)]
          mp mu cp cu ep eu pp pu assms(7) cong: sum.case_cong)
  moreover have "missing_cols df_processed = [] \<and> missing_cols df_unprocessed = []
          \<and> matching_rows env stock_code df_processed \<noteq> []
          \<and> matching_rows env stock_code df_unprocessed \<noteq> []
          \<longrightarrow> fst (load_and_prepare_data env processed_file unprocessed_file stock_code
                      period_type) =
               (case to_datetime env (dates_of (matching_rows env stock_code df_processed)) of
                  Inl e \<Rightarrow> Inl e
                | Inr proc_dates \<Rightarrow>
                   (case to_datetime env
                           (dates_of (matching_rows env stock_code df_unprocessed)) of
                      Inl e \<Rightarrow> Inl e
                    | Inr unproc_dates \<Rightarrow>
                        Inr (plot_rows type_unprocessed
                               (code_rows env stock_code df_unprocessed) unproc_dates
                             @ plot_rows type_processed
                               (code_rows env stock_code df_processed) proc_dates)))"
    by (simp add: load_result [OF assms(1-4)] empty_code_rows)
  ultimately show ?thesis by blast
qed

lemma redated_env_simps [simp]:
  "path_exists redated_env = path_exists example_env"
  "series_eq redated_env = series_eq example_env"
  "to_datetime redated_env = to_datetime example_env"
  "read_csv redated_env raw_csv = Inr redated_table"
  "read_csv redated_env processed_csv = Inr processed_table"
  by (simp_all add: redated_env_def)

lemma example_other_dates:
  "list_all2 (\<lambda>r r'. (\<forall>name. name \<noteq> trade_date_col \<longrightarrow> r' name = r name)
              \<and> (series_eq example_env (r stock_code_col) 920225 \<longrightarrow> r' = r))
     (rows raw_table) (rows redated_table)"
  by (simp add: raw_table_def redated_table_def example_row_def example_series_eq)

lemma example_columns: "columns redated_table = columns raw_table"
  by (simp add: raw_table_def redated_table_def)

lemma list_all2_same_rows:
  "list_all2 (\<lambda>r r'. (\<forall>name. name \<noteq> trade_date_col \<longrightarrow> r' name = r name)
              \<and> (P r \<longrightarrow> r' = r)) xs xs"
  by (simp add: list_all2_same)

theorem load_parses_kept_dates_witness:
  "list_all2 (\<lambda>r r'. (\<forall>name. name \<noteq> trade_date_col \<longrightarrow> r' name = r name)
              \<and> (series_eq example_env (r stock_code_col) 920225 \<longrightarrow> r' = r))
     (rows raw_table) (rows redated_table)
   \<and> fst (load_and_prepare_data redated_env processed_csv raw_csv 920225 weekly)
     = fst (load_and_prepare_data example_env processed_csv raw_csv 920225 weekly)
   \<and> fst (load_and_prepare_data example_env processed_csv raw_csv 920225 weekly) =
       Inr (plot_rows type_unprocessed (code_rows example_env 920225 raw_table)
              [On Jan_01_2024, On Jan_08_2024]
            @ plot_rows type_processed (code_rows example_env 920225 processed_table)
              [On Jan_01_2024, On Jan_08_2024])"
proof -
  have "fst (load_and_prepare_data redated_env processed_csv raw_csv 920225 weekly)
     = fst (load_and_prepare_data example_env processed_csv raw_csv 920225 weekly)
   \<and> fst (load_and_prepare_data example_env processed_csv raw_csv 920225 weekly) =
       Inr (plot_rows type_unprocessed (code_rows example_env 920225 raw_table)
              [On Jan_01_2024, On Jan_08_2024]
            @ plot_rows type_processed (code_rows example_env 920225 processed_table)
              [On Jan_01_2024, On Jan_08_2024])"
    using load_parses_kept_dates [of example_env processed_csv raw_csv processed_table
        raw_table redated_env processed_table redated_table 920225 weekly,
        OF _ _ _ _ _ _ _ _ _ _ _ list_all2_same_rows example_other_dates]
    by (simp add: example_nonempty_920225 example_dates_920225 example_columns)
  with example_other_dates show ?thesis by blast
qed

text \<open>
  The claim as stated fails. The row of 600000 in \<open>raw.csv\<close> has \<open>n/a\<close> where its date
  should be, a text that is no calendar date. \<open>pd.read_csv\<close> reads the field as a missing
  value and \<open>pd.to_datetime\<close> makes \<open>NaT\<close> of a missing value without raising, so the
  loader, asked for 600000, keeps the row and returns its records with no date instead
  of failing.
\<close>

theorem load_parses_kept_dates_counterexample:
  "matching_rows example_env 600000 raw_table =
     [example_row (IntCell 600000) NaCell (FloatCell 3 0)]
   \<and> fst (load_and_prepare_data example_env raw_csv raw_csv 600000 weekly) =
       Inr [\<lparr>trade_date = NaT, close = FloatCell 3 0, type = type_unprocessed\<rparr>,
            \<lparr>trade_date = NaT, close = FloatCell 3 0, type = type_processed\<rparr>]"
proof -
  have ne: "matching_rows example_env 600000 raw_table \<noteq> []"
    by (simp add: example_matching_600000)
  have "fst (load_and_prepare_data example_env raw_csv raw_csv 600000 weekly) =
       Inr [\<lparr>trade_date = NaT, close = FloatCell 3 0, type = type_unprocessed\<rparr>,
            \<lparr>trade_date = NaT, close = FloatCell 3 0, type = type_processed\<rparr>]"
    apply (simp add: load_result [of _ _ _ raw_table raw_table] empty_code_rows ne
            example_dates_600000)
    apply (simp add: plot_rows_def example_matching_600000 example_row_def)
    done
  with example_matching_600000(1) show ?thesis by blast
qed

subsection \<open>Claims about the chart and the entry point\<close>

text \<open>
  C7: for a period label other than the two recognised ones, \<open>compare_stock_data\<close> raises
  a \<open>ValueError\<close> and its trace is empty: no path is tested, no file is read or written
  and nothing is printed.
\<close>

theorem invalid_period_no_io:
  assumes "period_type \<noteq> weekly" and "period_type \<noteq> daily"
  shows "compare_stock_data env stock_code processed_file unprocessed_file period_type
           output_file
         = (Inl (ValueError msg_bad_period), [])"
  using assms by (simp add: compare_stock_data_def io_raise_def)

theorem invalid_period_no_io_witness:
  "ascii ''monthly'' \<noteq> weekly \<and> ascii ''monthly'' \<noteq> daily
   \<and> compare_stock_data example_env 920225 processed_csv raw_csv (ascii ''monthly'') None
       = (Inl (ValueError msg_bad_period), [])"
proof -
  have h: "ascii ''monthly'' \<noteq> weekly" "ascii ''monthly'' \<noteq> daily"
    by (simp_all add: ascii_def weekly_def daily_def)
  from invalid_period_no_io [OF h, of example_env 920225 processed_csv raw_csv None] h
  show ?thesis by simp
qed

text \<open>
  C8: \<open>create_comparison_chart\<close> called with no output path (\<open>None\<close>) or with the empty
  string returns the chart and its trace is empty, so nothing is written. Called with a
  non-empty path it calls \<open>chart.save\<close> once: when the call returns, the chart has been
  written to that path and to no other, the path is reported and the chart returned;
  when the call raises, the exception is passed on and nothing is written.
\<close>

theorem chart_written_once:
  "create_comparison_chart env df_combined stock_code period_type None
     = (Inr (layered_chart df_combined stock_code period_type), [])
   \<and> create_comparison_chart env df_combined stock_code period_type (Some [])
     = (Inr (layered_chart df_combined stock_code period_type), [])
   \<and> (p \<noteq> [] \<longrightarrow>
        create_comparison_chart env df_combined stock_code period_type (Some p) =
          (case chart_save env (layered_chart df_combined stock_code period_type) p of
             None \<Rightarrow> (Inr (layered_chart df_combined stock_code period_type),
                       [Write p (layered_chart df_combined stock_code period_type),
                        Print (msg_saved @ p)])
           | Some e \<Rightarrow> (Inl e, [])))"
  by (simp add: create_comparison_chart_def save_def io_return_def io_print_def Let_def
        split: option.splits)

theorem chart_written_once_witness:
  "ascii ''chart.json'' \<noteq> []
   \<and> create_comparison_chart example_env [] 920225 weekly (Some (ascii ''chart.json''))
     = (Inr (layered_chart [] 920225 weekly),
        [Write (ascii ''chart.json'') (layered_chart [] 920225 weekly),
         Print (msg_saved @ ascii ''chart.json'')])
   \<and> written_paths
        (snd (create_comparison_chart example_env [] 920225 weekly (Some (ascii ''chart.json''))))
       = [ascii ''chart.json'']
   \<and> written_paths (snd (create_comparison_chart example_env [] 920225 weekly None)) = []"
proof -
  have h: "ascii ''chart.json'' \<noteq> []"
    by (simp add: ascii_def)
  from chart_written_once [of example_env "[]" 920225 weekly "ascii ''chart.json''"] h
  show ?thesis by simp
qed

text \<open>
  The claim as stated fails: the empty string is a path argument that is given, and
  \<open>if output_file:\<close> takes it for none, so the chart is returned and no file is written.
\<close>

theorem chart_written_once_counterexample:
  "create_comparison_chart example_env [] 920225 weekly (Some [])
     = (Inr (layered_chart [] 920225 weekly), [])
   \<and> written_paths (snd (create_comparison_chart example_env [] 920225 weekly (Some []))) = []"
  by (simp add: create_comparison_chart_def io_return_def Let_def)

text \<open>
  C9: the table returned by \<open>load_and_prepare_data\<close>, and everything else the call does,
  is the same for any two values of \<open>period_type\<close>.
\<close>

theorem load_ignores_period_type:
  "load_and_prepare_data env processed_file unprocessed_file stock_code period_a
   = load_and_prepare_data env processed_file unprocessed_file stock_code period_b"
  by (simp add: load_and_prepare_data_def load_body_def)

subsection \<open>What a run writes\<close>

lemma written_paths_append [simp]:
  "written_paths (tr @ tr') = written_paths tr @ written_paths tr'"
  by (induction tr rule: written_paths.induct) simp_all

lemma snd_io_bind:
  "snd (io_bind m f) = (case fst m of Inl e \<Rightarrow> snd m | Inr x \<Rightarrow> snd m @ snd (f x))"
  by (cases m) (auto simp: io_bind_def split: sum.splits prod.splits)

lemma snd_io_simps [simp]:
  "snd (io_return x) = []"
  "snd (io_raise e) = []"
  "snd (io_lift r) = []"
  "snd (io_print s) = [Print s]"
  "snd (os_path_exists env p) = [Stat p]"
  "snd (pd_read_csv env p) = [Read p]"
  by (simp_all add: io_return_def io_raise_def io_lift_def io_print_def os_path_exists_def
        pd_read_csv_def)

lemma fst_io_print [simp]: "fst (io_print s) = Inr ()"
  by (simp add: io_print_def)

text \<open>The loader tests paths, reads and prints; it writes no file.\<close>

lemma load_body_writes_nothing:
  "written_paths (snd (load_body env pf uf code period)) = []"
  by (simp add: load_body_def snd_io_bind Let_def split: sum.splits)

lemma load_writes_nothing:
  "written_paths (snd (load_and_prepare_data env pf uf code period)) = []"
  using load_body_writes_nothing [of env pf uf code period]
  by (cases "load_body env pf uf code period")
     (auto simp: load_and_prepare_data_def io_except_reraise_def split: sum.splits)

lemma chart_returned_writes:
  assumes "fst (create_comparison_chart env df code period (Some p)) = Inr ch" and "p \<noteq> []"
  shows "written_paths (snd (create_comparison_chart env df code period (Some p))) = [p]"
  using assms
  by (auto simp: create_comparison_chart_def save_def io_return_def io_print_def Let_def
           split: option.splits)

lemma auto_output_file_nonempty: "auto_output_file code period \<noteq> []"
  by (simp add: auto_output_file_def ascii_def)

text \<open>
  C10: a call of \<open>compare_stock_data\<close> that returns a chart, and whose output path is
  absent or a non-empty string, writes exactly one chart file: at the path given, or at
  \<open>stock_{code}_{period}_comparison_chart.json\<close> when none was given.
\<close>

theorem entry_point_writes_chart:
  assumes "fst (compare_stock_data env stock_code processed_file unprocessed_file period_type
                  output_file) = Inr ch"
    and "output_file \<noteq> Some []"
  shows "written_paths (snd (compare_stock_data env stock_code processed_file unprocessed_file
                               period_type output_file))
         = [case output_file of
              None \<Rightarrow> auto_output_file stock_code period_type
            | Some p \<Rightarrow> p]"
proof -
  define p where "p = (case output_file of
                         None \<Rightarrow> auto_output_file stock_code period_type
                       | Some q \<Rightarrow> q)"
  have p_ne: "p \<noteq> []"
    using assms(2) by (auto simp: p_def auto_output_file_nonempty split: option.splits)
  have out: "(case output_file of
                None \<Rightarrow> Some (auto_output_file stock_code period_type)
              | Some q \<Rightarrow> Some q) = Some p"
    by (simp add: p_def split: option.splits)
  have valid: "period_type \<in> set [weekly, daily]"
    using assms(1) by (auto simp: compare_stock_data_def split: if_splits)
  have run: "compare_stock_data env stock_code processed_file unprocessed_file period_type
               output_file =
             io_bind (io_print (msg_start stock_code period_type)) (\<lambda>_.
             io_bind (load_and_prepare_data env processed_file unprocessed_file
                        stock_code period_type) (\<lambda>df_combined.
             io_bind (create_comparison_chart env df_combined stock_code period_type
                        (Some p)) (\<lambda>ch.
             io_bind (io_print (msg_done stock_code period_type)) (\<lambda>_.
             io_return ch))))"
    using valid by (auto simp: compare_stock_data_def Let_def out)
  obtain r tr where l: "load_and_prepare_data env processed_file unprocessed_file
                          stock_code period_type = (r, tr)"
    by (cases "load_and_prepare_data env processed_file unprocessed_file stock_code period_type")
  have tr: "written_paths tr = []"
    using load_writes_nothing [of env processed_file unprocessed_file stock_code period_type]
    by (simp add: l)
  show ?thesis
  proof (cases r)
    case (Inl e)
    with assms(1) show ?thesis
      by (simp add: run l fst_io_bind)
  next
    case (Inr df_combined)
    have c: "fst (create_comparison_chart env df_combined stock_code period_type (Some p))
               = Inr ch"
      using assms(1)
      by (simp add: run l Inr fst_io_bind split: sum.splits)
    from chart_returned_writes [OF c p_ne] c tr show ?thesis
      by (simp add: run l Inr snd_io_bind fst_io_bind p_def [symmetric])
  qed
qed

text \<open>The run of the scenario: what the loader and the entry point do, event by event.\<close>

lemma example_load_trace:
  "snd (load_and_prepare_data example_env processed_csv raw_csv 920225 weekly) =
     [Stat processed_csv, Stat raw_csv, Read processed_csv, Read raw_csv]"
proof -
  have "snd (load_body example_env processed_csv raw_csv 920225 weekly) =
          [Stat processed_csv, Stat raw_csv, Read processed_csv, Read raw_csv]"
    by (simp add: load_body_def snd_io_bind fst_io_bind Let_def empty_code_rows
          example_nonempty_920225 example_dates_920225)
  moreover have "\<exists>t. fst (load_body example_env processed_csv raw_csv 920225 weekly) = Inr t"
    using example_load_920225 by (simp add: fst_load_and_prepare_data)
  ultimately show ?thesis
    by (cases "load_body example_env processed_csv raw_csv 920225 weekly")
       (auto simp: load_and_prepare_data_def io_except_reraise_def)
qed

theorem entry_point_writes_chart_witness:
  "fst (compare_stock_data example_env 920225 processed_csv raw_csv weekly None) =
     Inr (layered_chart
       [\<lparr>trade_date = On Jan_01_2024, close = FloatCell 21 (- 1), type = type_unprocessed\<rparr>,
        \<lparr>trade_date = On Jan_08_2024, close = FloatCell 11 0, type = type_unprocessed\<rparr>,
        \<lparr>trade_date = On Jan_01_2024, close = FloatCell 41 (- 2), type = type_processed\<rparr>,
        \<lparr>trade_date = On Jan_08_2024, close = FloatCell 43 (- 2), type = type_processed\<rparr>]
       920225 weekly)
   \<and> written_paths
        (snd (compare_stock_data example_env 920225 processed_csv raw_csv weekly None))
       = [ascii ''stock_920225_'' @ weekly @ ascii ''_comparison_chart.json'']"
proof -
  have run: "fst (compare_stock_data example_env 920225 processed_csv raw_csv weekly None) =
     Inr (layered_chart
       [\<lparr>trade_date = On Jan_01_2024, close = FloatCell 21 (- 1), type = type_unprocessed\<rparr>,
        \<lparr>trade_date = On Jan_08_2024, close = FloatCell 11 0, type = type_unprocessed\<rparr>,
        \<lparr>trade_date = On Jan_01_2024, close = FloatCell 41 (- 2), type = type_processed\<rparr>,
        \<lparr>trade_date = On Jan_08_2024, close = FloatCell 43 (- 2), type = type_processed\<rparr>]
       920225 weekly)"
    by (simp add: compare_stock_data_def fst_io_bind example_load_920225
          create_comparison_chart_def save_def auto_output_file_nonempty Let_def)
  have name: "auto_output_file 920225 weekly
                = ascii ''stock_920225_'' @ weekly @ ascii ''_comparison_chart.json''"
    by (simp add: auto_output_file_def str_int_def str_nat.simps ascii_def)
  from entry_point_writes_chart [OF run] run show ?thesis
    by (simp add: name)
qed

text \<open>
  The claim as stated fails: called with the empty string as output path, the entry
  point keeps it (it is not \<open>None\<close>), the chart function takes it for no path, and the
  call returns the chart without writing any file.
\<close>

theorem entry_point_writes_chart_counterexample:
  "compare_stock_data example_env 920225 processed_csv raw_csv weekly (Some []) =
     (Inr (layered_chart
        [\<lparr>trade_date = On Jan_01_2024, close = FloatCell 21 (- 1), type = type_unprocessed\<rparr>,
         \<lparr>trade_date = On Jan_08_2024, close = FloatCell 11 0, type = type_unprocessed\<rparr>,
         \<lparr>trade_date = On Jan_01_2024, close = FloatCell 41 (- 2), type = type_processed\<rparr>,
         \<lparr>trade_date = On Jan_08_2024, close = FloatCell 43 (- 2), type = type_processed\<rparr>]
        920225 weekly),
      [Print (msg_start 920225 weekly),
       Stat processed_csv, Stat raw_csv, Read processed_csv, Read raw_csv,
       Print (msg_done 920225 weekly)])
   \<and> written_paths
        (snd (compare_stock_data example_env 920225 processed_csv raw_csv weekly (Some [])))
       = []"
proof -
  have "fst (compare_stock_data example_env 920225 processed_csv raw_csv weekly (Some [])) =
     Inr (layered_chart
        [\<lparr>trade_date = On Jan_01_2024, close = FloatCell 21 (- 1), type = type_unprocessed\<rparr>,
         \<lparr>trade_date = On Jan_08_2024, close = FloatCell 11 0, type = type_unprocessed\<rparr>,
         \<lparr>trade_date = On Jan_01_2024, close = FloatCell 41 (- 2), type = type_processed\<rparr>,
         \<lparr>trade_date = On Jan_08_2024, close = FloatCell 43 (- 2), type = type_processed\<rparr>]
        920225 weekly)"
    by (simp add: compare_stock_data_def fst_io_bind example_load_920225
          create_comparison_chart_def Let_def)
  moreover have
    "snd (compare_stock_data example_env 920225 processed_csv raw_csv weekly (Some [])) =
      [Print (msg_start 920225 weekly),
       Stat processed_csv, Stat raw_csv, Read processed_csv, Read raw_csv,
       Print (msg_done 920225 weekly)]"
    by (simp add: compare_stock_data_def snd_io_bind fst_io_bind example_load_920225
          example_load_trace create_comparison_chart_def Let_def)
  ultimately show ?thesis
    by (simp add: prod_eq_iff)
qed

end
